theory Spec2Isabelle
  imports Complex_Main "HOL-Library.Word"
begin

section \<open>Thrown values\<close>

text \<open>
  The sources distinguish three kinds of thrown value in their \<^verbatim>\<open>catch\<close> clauses:
  \<^verbatim>\<open>cb::Exception\<close> (a message, an integer code and an optional cause), any other
  \<^verbatim>\<open>std::exception\<close> (known by its \<^verbatim>\<open>what()\<close> string) and everything else, which only
  \<^verbatim>\<open>catch (...)\<close> sees.
\<close>

datatype Exception =
  Exception (getMessage: string) (getCode: int) (getCause: "Exception option")

datatype thrown =
    CbThrown Exception
  | StdThrown string
  | OtherThrown

text \<open>\<^verbatim>\<open>THROW(msg)\<close>: a \<^verbatim>\<open>cb::Exception\<close> with the message, no code and no cause.\<close>

definition THROW :: "string \<Rightarrow> thrown" where
  "THROW msg = CbThrown (Exception msg 0 None)"

text \<open>\<^verbatim>\<open>THROWC(msg, e)\<close>: as \<^verbatim>\<open>THROW\<close>, with \<open>e\<close> as the cause.\<close>

definition THROWC :: "string \<Rightarrow> Exception \<Rightarrow> thrown" where
  "THROWC msg e = CbThrown (Exception msg 0 (Some e))"


section \<open>HTTP::dispatch\<close>

text \<open>
  A request as \<^verbatim>\<open>dispatch\<close> reads it: its ID and the client's address (carried in
  printed form).
\<close>

type_synonym IPAddress = string

record Request =
  getID :: nat
  getClientIP :: IPAddress

text \<open>What is streamed into a log line with \<^verbatim>\<open><<\<close>, item by item.\<close>

datatype log_item =
    LStr string
  | LChr char
  | LNat nat
  | LAddr IPAddress
  | LMessages Exception
  | LException Exception
  | LStatusDescription nat

text \<open>
  The calls \<^verbatim>\<open>dispatch\<close> makes on the handler, the request and the logger, in the
  order it makes them. \<open>SendErrorStatus\<close>, \<open>SendErrorCb\<close> and \<open>SendErrorStd\<close> are the three
  overloads of \<^verbatim>\<open>req.sendError\<close>.
\<close>

datatype call =
    HandleRequest
  | EndRequest
  | SendErrorStatus nat
  | SendErrorCb Exception
  | SendErrorStd string
  | Reply int
  | LogWarning "log_item list"
  | LogError "log_item list"
  | LogDebug nat "log_item list"

text \<open>
  The handler and the request are application code. Their behaviour is a parameter:
  what \<^verbatim>\<open>handler.handleRequest(req)\<close> does (returns a boolean or throws), and for every
  other call whether it returns or throws, which may depend on everything that was
  called before. \<open>debug3\<close> is \<^verbatim>\<open>CBANG_LOG_DEBUG_ENABLED(3)\<close>. Logging does not throw.
\<close>

record world =
  handleRequest :: "thrown + bool"
  call_out :: "call list \<Rightarrow> call \<Rightarrow> thrown option"
  debug3 :: bool

definition invoke :: "world \<Rightarrow> call list \<Rightarrow> call \<Rightarrow> call list \<times> thrown option" where
  "invoke w tr c = (tr @ [c], call_out w tr c)"

text \<open>The last two lines of \<^verbatim>\<open>dispatch\<close>: \<^verbatim>\<open>handler.endRequest(req); return false;\<close>\<close>

definition dispatch_end :: "world \<Rightarrow> call list \<Rightarrow> call list \<times> (thrown + bool)" where
  "dispatch_end w tr =
     (case invoke w tr EndRequest of
        (tr', None) \<Rightarrow> (tr', Inr False)
      | (tr', Some x) \<Rightarrow> (tr', Inl x))"

text \<open>
  A reply made inside a \<^verbatim>\<open>catch\<close> clause: if it throws, nothing catches the exception
  and it leaves \<^verbatim>\<open>dispatch\<close>; otherwise control reaches the last two lines.
\<close>

definition reply_in_catch :: "world \<Rightarrow> call list \<Rightarrow> call \<Rightarrow> call list \<times> (thrown + bool)" where
  "reply_in_catch w tr c =
     (case invoke w tr c of
        (tr', None) \<Rightarrow> dispatch_end w tr'
      | (tr', Some x) \<Rightarrow> (tr', Inl x))"

text \<open>The line \<^verbatim>\<open>LOG_WARNING("REQ" << req.getID() << ':' << req.getClientIP() << ':' << e.getMessages())\<close>.\<close>

definition request_warning :: "Request \<Rightarrow> Exception \<Rightarrow> call" where
  "request_warning req e =
     LogWarning [LStr ''REQ'', LNat (getID req), LChr (CHR '':''),
                 LAddr (getClientIP req), LChr (CHR '':''), LMessages e]"

text \<open>The three \<^verbatim>\<open>catch\<close> clauses, in the source's order.\<close>

fun dispatch_catch ::
  "world \<Rightarrow> Request \<Rightarrow> call list \<Rightarrow> thrown \<Rightarrow> call list \<times> (thrown + bool)" where
  "dispatch_catch w req tr (CbThrown e) =
     (if 400 \<le> getCode e \<and> getCode e < 600 then
        reply_in_catch w (tr @ [request_warning req e]) (Reply (getCode e))
      else
        reply_in_catch w
          (tr @ (if \<not> debug3 w then [LogWarning [LMessages e]] else [])
              @ (if debug3 w then [LogDebug 3 [LException e]] else []))
          (SendErrorCb e))"
| "dispatch_catch w req tr (StdThrown m) =
     reply_in_catch w (tr @ [LogError [LStr m]]) (SendErrorStd m)"
| "dispatch_catch w req tr OtherThrown =
     reply_in_catch w (tr @ [LogError [LStatusDescription 500]]) (SendErrorStatus 500)"

text \<open>
  \<^verbatim>\<open>bool HTTP::dispatch(HTTPHandler &handler, Request &req)\<close>: the calls made, and the
  value returned or the exception that left the function.
\<close>

definition dispatch :: "world \<Rightarrow> Request \<Rightarrow> call list \<times> (thrown + bool)" where
  "dispatch w req =
     (case handleRequest w of
        Inl x \<Rightarrow> dispatch_catch w req [HandleRequest] x
      | Inr True \<Rightarrow>
          (case invoke w [HandleRequest] EndRequest of
             (tr, None) \<Rightarrow> (tr, Inr True)
           | (tr, Some x) \<Rightarrow> dispatch_catch w req tr x)
      | Inr False \<Rightarrow>
          (case invoke w [HandleRequest] (SendErrorStatus 404) of
             (tr, None) \<Rightarrow> dispatch_end w tr
           | (tr, Some x) \<Rightarrow> dispatch_catch w req tr x))"

text \<open>The replies that the \<^verbatim>\<open>catch\<close> clauses make.\<close>

fun catch_reply :: "call \<Rightarrow> bool" where
  "catch_reply (Reply c) = True"
| "catch_reply (SendErrorCb e) = True"
| "catch_reply (SendErrorStd m) = True"
| "catch_reply (SendErrorStatus s) = (s = 500)"
| "catch_reply c = False"


section \<open>ConcurrentPool\<close>

text \<open>
  Modelled from the spec: the class \<^verbatim>\<open>Task\<close> (declared in ConcurrentPool.h, which is not
  among the sources). A task has a priority, a failed flag and an optional captured
  error; \<^verbatim>\<open>setException\<close> stores what was caught, an exception as it is or a message
  string, and marks the task failed. \<open>task_id\<close> is the identity of the object.
\<close>

datatype captured =
    CapturedException Exception
  | CapturedString string

record Task =
  task_id :: nat
  task_priority :: int
  failed :: bool
  exception :: "captured option"

definition setException :: "captured \<Rightarrow> Task \<Rightarrow> Task" where
  "setException c t = t\<lparr>failed := True, exception := Some c\<rparr>"

text \<open>
  Modelled from the spec: the queues \<^verbatim>\<open>ready\<close> and \<^verbatim>\<open>completed\<close> (their type is declared
  in ConcurrentPool.h). Both are priority queues, highest priority first and first in,
  first out among equal priorities: a list kept in that order, so that \<^verbatim>\<open>top()\<close> is the
  head and \<^verbatim>\<open>pop()\<close> leaves the tail.
\<close>

fun push :: "Task \<Rightarrow> Task list \<Rightarrow> Task list" where
  "push t [] = [t]"
| "push t (u # q) =
     (if task_priority u < task_priority t then t # u # q else u # push t q)"

text \<open>
  The pool: its two queues and how often \<^verbatim>\<open>event->activate()\<close> has been called on the
  reactor-side event.
\<close>

record ConcurrentPool =
  pool_size :: nat
  ready :: "Task list"
  completed :: "Task list"
  activations :: nat

text \<open>
  The constructor. \<open>threadsEnabled\<close> is \<^verbatim>\<open>Base::threadsEnabled()\<close>.
\<close>

definition ConcurrentPool_new :: "bool \<Rightarrow> nat \<Rightarrow> thrown + ConcurrentPool" where
  "ConcurrentPool_new threadsEnabled n =
     (if \<not> threadsEnabled then
        Inl (THROW (''Cannot use Event::ConcurrentPool without threads enabled.  '' @
                    ''Call Event::Base::enableThreads() before creating Event::Base.''))
      else Inr \<lparr>pool_size = n, ready = [], completed = [], activations = 0\<rparr>)"

definition submit :: "Task \<Rightarrow> ConcurrentPool \<Rightarrow> ConcurrentPool" where
  "submit task p = p\<lparr>ready := push task (ready p)\<rparr>"

subsection \<open>ConcurrentPool::run\<close>

text \<open>
  The \<^verbatim>\<open>try\<close> block around \<^verbatim>\<open>task->run()\<close> with its three \<^verbatim>\<open>catch\<close> clauses. The first
  argument is what \<^verbatim>\<open>run()\<close> of a task does: return or throw. A thrown value that no
  clause caught would be the \<open>Inl\<close> result.
\<close>

definition run_task :: "(Task \<Rightarrow> thrown option) \<Rightarrow> Task \<Rightarrow> thrown + Task" where
  "run_task run_out task =
     (case run_out task of
        None \<Rightarrow> Inr task
      | Some (CbThrown e) \<Rightarrow> Inr (setException (CapturedException e) task)
      | Some (StdThrown what) \<Rightarrow> Inr (setException (CapturedString what) task)
      | Some OtherThrown \<Rightarrow> Inr (setException (CapturedString ''Unknown exception'') task))"

text \<open>
  The loop body after \<^verbatim>\<open>ready.pop()\<close>: run the task that was taken, put it in the
  completed queue and activate the event.
\<close>

definition run_body ::
  "(Task \<Rightarrow> thrown option) \<Rightarrow> Task \<Rightarrow> ConcurrentPool \<Rightarrow> thrown + ConcurrentPool" where
  "run_body run_out task p =
     (case run_task run_out task of
        Inl x \<Rightarrow> Inl x
      | Inr task' \<Rightarrow>
          Inr (p\<lparr>completed := push task' (completed p),
                 activations := activations p + 1\<rparr>))"

text \<open>
  The worker loop of one thread. The list holds what successive calls of
  \<^verbatim>\<open>Thread::current().shouldShutdown()\<close> return: one in the loop condition and one after
  \<^verbatim>\<open>Condition::wait()\<close>. When the list is used up the thread has not been woken
  again, and the pool is as the thread left it. An exception that left the loop
  would be the \<open>Inl\<close> result. What other threads do to the queues while the lock is
  released is not part of this model.
\<close>

fun run :: "(Task \<Rightarrow> thrown option) \<Rightarrow> bool list \<Rightarrow> ConcurrentPool \<Rightarrow> thrown + ConcurrentPool" where
  "run run_out (atLoop # afterWait # obs) p =
     (if atLoop then Inr p
      else if afterWait then Inr p
      else (case ready p of
              [] \<Rightarrow> run run_out obs p
            | task # rest \<Rightarrow>
                (case run_body run_out task (p\<lparr>ready := rest\<rparr>) of
                   Inl x \<Rightarrow> Inl x
                 | Inr p' \<Rightarrow> run run_out obs p')))"
| "run run_out obs p = Inr p"

subsection \<open>ConcurrentPool::complete\<close>

text \<open>The callbacks of a task that the reactor side calls, and the error log.\<close>

datatype task_call =
    Success nat
  | Error nat "captured option"
  | Complete nat
  | LoggedError thrown

text \<open>
  The macro \<^verbatim>\<open>CATCH_ERROR\<close> comes from cbang/Catch.h, which is not among the sources.
  Which thrown values its clauses catch is therefore a parameter, \<open>caught\<close>; what it
  catches it logs as an error. The result is what is logged, and the thrown value if
  it is not caught.
\<close>

definition CATCH_ERROR :: "(thrown \<Rightarrow> bool) \<Rightarrow> thrown \<Rightarrow> task_call list \<times> thrown option" where
  "CATCH_ERROR caught x = (if caught x then ([LoggedError x], None) else ([], Some x))"

text \<open>
  \<^verbatim>\<open>try {...} CATCH_ERROR;\<close> around one callback. As for \<^verbatim>\<open>dispatch\<close>, whether a callback
  returns or throws is a parameter and may depend on all calls before it.
\<close>

definition try_call ::
  "(thrown \<Rightarrow> bool) \<Rightarrow> (task_call list \<Rightarrow> task_call \<Rightarrow> thrown option) \<Rightarrow> task_call list
     \<Rightarrow> task_call \<Rightarrow> task_call list \<times> thrown option" where
  "try_call caught cb tr c =
     (case cb tr c of
        None \<Rightarrow> (tr @ [c], None)
      | Some x \<Rightarrow> (case CATCH_ERROR caught x of (logged, y) \<Rightarrow> (tr @ [c] @ logged, y)))"

text \<open>
  The loop of \<^verbatim>\<open>complete()\<close> over the completed queue: the calls made so far, the queue
  that is left, and an exception that left the loop, if any. Tasks that worker threads
  push while the lock is released around the callbacks are not part of this model.
\<close>

fun complete_loop ::
  "(thrown \<Rightarrow> bool) \<Rightarrow> (task_call list \<Rightarrow> task_call \<Rightarrow> thrown option) \<Rightarrow> task_call list
     \<Rightarrow> Task list \<Rightarrow> task_call list \<times> Task list \<times> thrown option" where
  "complete_loop caught cb tr [] = (tr, [], None)"
| "complete_loop caught cb tr (task # q) =
     (case try_call caught cb tr
             (if failed task then Error (task_id task) (exception task)
              else Success (task_id task)) of
        (tr1, Some x) \<Rightarrow> (tr1, q, Some x)
      | (tr1, None) \<Rightarrow>
          (case try_call caught cb tr1 (Complete (task_id task)) of
             (tr2, Some x) \<Rightarrow> (tr2, q, Some x)
           | (tr2, None) \<Rightarrow> complete_loop caught cb tr2 q))"

definition complete ::
  "(thrown \<Rightarrow> bool) \<Rightarrow> (task_call list \<Rightarrow> task_call \<Rightarrow> thrown option) \<Rightarrow> ConcurrentPool
     \<Rightarrow> ConcurrentPool \<times> task_call list \<times> thrown option" where
  "complete caught cb p =
     (case complete_loop caught cb [] (completed p) of
        (tr, q, r) \<Rightarrow> (p\<lparr>completed := q\<rparr>, tr, r))"

text \<open>
  The callbacks among the calls (the log entries left out), and the callbacks one
  drained task is due: \<^verbatim>\<open>error\<close> with the captured error if it failed, else
  \<^verbatim>\<open>success\<close>, and then \<^verbatim>\<open>complete\<close>.
\<close>

fun is_callback :: "task_call \<Rightarrow> bool" where
  "is_callback (LoggedError x) = False"
| "is_callback c = True"

definition callbacks :: "task_call list \<Rightarrow> task_call list" where
  "callbacks tr = filter is_callback tr"

definition due_callbacks :: "Task \<Rightarrow> task_call list" where
  "due_callbacks task =
     [if failed task then Error (task_id task) (exception task) else Success (task_id task),
      Complete (task_id task)]"


section \<open>HTTP: the server's state\<close>

text \<open>
  Modelled from the spec: the event handle (Event.h and Base.h are not among the
  sources). \<^verbatim>\<open>add\<close> registers the event, with a delay in seconds if one is given,
  \<^verbatim>\<open>del\<close> deregisters it, \<^verbatim>\<open>setPriority\<close> stores the priority and \<^verbatim>\<open>isPending\<close> tells
  whether it is registered. An event made without flags has the default flags of
  \<^verbatim>\<open>Base::newEvent\<close>, which the sources do not show: \<open>None\<close> stands for them.
\<close>

datatype callback = AcceptCB | ExpireCB

datatype event_flag = EVENT_READ | EVENT_PERSIST | EVENT_NO_SELF_REF

record Event =
  ev_callback :: callback
  ev_fd :: "nat option"
  ev_flags :: "event_flag list option"
  ev_priority :: "int option"
  isPending :: bool
  ev_delay :: "nat option"

definition newEvent :: "callback \<Rightarrow> nat option \<Rightarrow> event_flag list option \<Rightarrow> Event" where
  "newEvent cb fd fl =
     \<lparr>ev_callback = cb, ev_fd = fd, ev_flags = fl, ev_priority = None,
      isPending = False, ev_delay = None\<rparr>"

definition setPriority :: "int \<Rightarrow> Event \<Rightarrow> Event" where
  "setPriority p e = e\<lparr>ev_priority := Some p\<rparr>"

definition add :: "nat option \<Rightarrow> Event \<Rightarrow> Event" where
  "add t e = e\<lparr>isPending := True, ev_delay := t\<rparr>"

definition del :: "Event \<Rightarrow> Event" where
  "del e = e\<lparr>isPending := False\<rparr>"

text \<open>
  A connection as the server sees it: the identity of the object, the peer, the start
  time in seconds, and the settings that \<^verbatim>\<open>acceptCB\<close> applies. Times are reals: the
  rounding of \<^verbatim>\<open>double\<close> is left out.
\<close>

record Connection =
  con_id :: nat
  peer :: IPAddress
  getStartTime :: real
  con_http :: bool
  con_maxHeaderSize :: nat
  con_maxBodySize :: nat
  con_priority :: "int option"
  con_readTimeout :: nat
  con_writeTimeout :: nat
  con_stats :: bool

record Socket =
  sock_fd :: nat
  sock_reuseAddr :: bool
  sock_addr :: IPAddress
  sock_backlog :: nat

text \<open>
  The members of \<^verbatim>\<open>HTTP\<close> that the functions below read or write. The statistics sink,
  when set, is a counter per event name.
\<close>

record HTTP =
  maxConnections :: nat
  maxConnectionTTL :: nat
  priority :: int
  connectionBacklog :: nat
  maxHeaderSize :: nat
  maxBodySize :: nat
  readTimeout :: nat
  writeTimeout :: nat
  connections :: "Connection list"
  expireEvent :: "Event option"
  acceptEvent :: "Event option"
  socket :: "Socket option"
  boundAddr :: IPAddress
  stats :: "(string \<Rightarrow> nat) option"

text \<open>
  How a member function ends other than by returning: with a thrown value, or by
  dereferencing a smart pointer that is not set.
\<close>

datatype fault = Thrown thrown | NullDereference

text \<open>\<^verbatim>\<open>0 < priority ? priority - 1 : priority\<close>\<close>

definition above :: "int \<Rightarrow> int" where
  "above p = (if 0 < p then p - 1 else p)"

subsection \<open>HTTP::setMaxConnectionTTL and HTTP::setEventPriority\<close>

definition setMaxConnectionTTL :: "nat \<Rightarrow> HTTP \<Rightarrow> HTTP \<times> fault option" where
  "setMaxConnectionTTL x s =
     (let s1 = s\<lparr>maxConnectionTTL := x\<rparr> in
      if maxConnectionTTL s1 \<noteq> 0 then
        (let e = (case expireEvent s1 of
                    None \<Rightarrow> newEvent ExpireCB None None
                  | Some e0 \<Rightarrow> e0)
         in (s1\<lparr>expireEvent := Some (add (Some 60) (setPriority (above (priority s1)) e))\<rparr>,
             None))
      else
        (case expireEvent s1 of
           None \<Rightarrow> (s1, Some NullDereference)
         | Some e \<Rightarrow>
             if isPending e then (s1\<lparr>expireEvent := Some (del e)\<rparr>, None)
             else (s1, None)))"

definition setEventPriority :: "int \<Rightarrow> HTTP \<Rightarrow> HTTP" where
  "setEventPriority p s =
     (let s1 = s\<lparr>priority := p\<rparr> in
      if 0 \<le> p then
        s1\<lparr>expireEvent := map_option (setPriority (above p)) (expireEvent s1),
           acceptEvent := map_option (setPriority (above p)) (acceptEvent s1)\<rparr>
      else s1)"

subsection \<open>HTTP::remove\<close>

text \<open>
  \<^verbatim>\<open>connections.remove(&con)\<close> drops every entry that is the object \<open>con\<close>; then
  \<^verbatim>\<open>acceptEvent->add()\<close>.
\<close>

definition remove :: "Connection \<Rightarrow> HTTP \<Rightarrow> HTTP \<times> fault option" where
  "remove con s =
     (let s1 = s\<lparr>connections := filter (\<lambda>c. con_id c \<noteq> con_id con) (connections s)\<rparr> in
      case acceptEvent s1 of
        None \<Rightarrow> (s1, Some NullDereference)
      | Some e \<Rightarrow> (s1\<lparr>acceptEvent := Some (add None e)\<rparr>, None))"

subsection \<open>HTTP::bind\<close>

text \<open>
  The first argument is the operating system's answer to creating, binding and
  listening on a socket for an address and a backlog: the descriptor, or the exception
  that \<^verbatim>\<open>Socket\<close> throws.
\<close>

definition bind :: "(IPAddress \<Rightarrow> nat \<Rightarrow> thrown + nat) \<Rightarrow> IPAddress \<Rightarrow> HTTP \<Rightarrow> HTTP \<times> fault option" where
  "bind os addr s =
     (if socket s \<noteq> None then (s, Some (Thrown (THROW ''Already bound'')))
      else
        (case os addr (connectionBacklog s) of
           Inl x \<Rightarrow> (s, Some (Thrown x))
         | Inr fd \<Rightarrow>
             (let e = newEvent AcceptCB (Some fd)
                        (Some [EVENT_READ, EVENT_PERSIST, EVENT_NO_SELF_REF]);
                  e1 = (if 0 \<le> priority s then setPriority (above (priority s)) e else e)
              in (s\<lparr>acceptEvent := Some (add None e1),
                    socket := Some \<lparr>sock_fd = fd, sock_reuseAddr = True, sock_addr = addr,
                                    sock_backlog = connectionBacklog s\<rparr>,
                    boundAddr := addr\<rparr>,
                  None))))"

subsection \<open>HTTP::expireCB\<close>

text \<open>
  Modelled from the spec: \<^verbatim>\<open>stats->event(name)\<close> (RateSet.h is not among the sources)
  counts one event of that name.
\<close>

definition event :: "string \<Rightarrow> (string \<Rightarrow> nat) \<Rightarrow> (string \<Rightarrow> nat)" where
  "event n st = st(n := st n + 1)"

text \<open>
  The loop over the connection list: the connections that stay, the statistics and
  the local \<^verbatim>\<open>count\<close>.
\<close>

fun expire_loop ::
  "nat \<Rightarrow> real \<Rightarrow> Connection list \<Rightarrow> (string \<Rightarrow> nat) option \<Rightarrow> nat
     \<Rightarrow> Connection list \<times> (string \<Rightarrow> nat) option \<times> nat" where
  "expire_loop ttl now [] st count = ([], st, count)"
| "expire_loop ttl now (c # cs) st count =
     (if real ttl < now - getStartTime c then
        expire_loop ttl now cs (map_option (event ''timedout'') st) (count + 1)
      else
        (case expire_loop ttl now cs st count of
           (kept, st', count') \<Rightarrow> (c # kept, st', count')))"

text \<open>\<open>now\<close> is what \<^verbatim>\<open>Timer::now()\<close> returns. The second result is the count logged.\<close>

definition expireCB :: "real \<Rightarrow> HTTP \<Rightarrow> HTTP \<times> nat" where
  "expireCB now s =
     (case expire_loop (maxConnectionTTL s) now (connections s) (stats s) 0 of
        (kept, st, count) \<Rightarrow> (s\<lparr>connections := kept, stats := st\<rparr>, count))"

subsection \<open>HTTP::acceptCB\<close>

text \<open>What \<^verbatim>\<open>acceptCB\<close> does to the world outside the \<^verbatim>\<open>HTTP\<close> object, in order.\<close>

datatype accept_call =
    Evict
  | AcceptEventDel
  | SocketAccept
  | LogFailedAccept
  | AcceptRequest nat

text \<open>
  The handler's \<^verbatim>\<open>evict\<close> hook is a parameter: the list it leaves, and the exception
  if it throws. So is \<^verbatim>\<open>socket->accept(&peer)\<close>: the connection that
  \<^verbatim>\<open>new Connection(base, true, peer, newSocket, sslCtx)\<close> makes of the new socket, or
  \<open>None\<close> when the new socket is null.
\<close>

definition acceptCB ::
  "(Connection list \<Rightarrow> Connection list \<times> thrown option) \<Rightarrow> Connection option \<Rightarrow> HTTP
     \<Rightarrow> HTTP \<times> accept_call list \<times> fault option" where
  "acceptCB evict accepted s =
     (let atCap = (maxConnections s \<noteq> 0 \<and> maxConnections s \<le> length (connections s));
          s1 = (if atCap then s\<lparr>connections := fst (evict (connections s))\<rparr> else s);
          tr = (if atCap then [Evict] else [])
      in
      if atCap \<and> snd (evict (connections s)) \<noteq> None then
        (s1, tr, map_option Thrown (snd (evict (connections s))))
      else if atCap \<and> maxConnections s1 \<le> length (connections s1) then
        (case acceptEvent s1 of
           None \<Rightarrow> (s1, tr, Some NullDereference)
         | Some e \<Rightarrow> (s1\<lparr>acceptEvent := Some (del e)\<rparr>, tr @ [AcceptEventDel], None))
      else
        (case socket s1 of
           None \<Rightarrow> (s1, tr, Some NullDereference)
         | Some sock \<Rightarrow>
             (case accepted of
                None \<Rightarrow> (s1, tr @ [SocketAccept, LogFailedAccept], None)
              | Some con \<Rightarrow>
                  (let con1 = con\<lparr>con_http := True,
                                   con_maxHeaderSize := maxHeaderSize s1,
                                   con_maxBodySize := maxBodySize s1,
                                   con_priority := (if 0 \<le> priority s1 then Some (priority s1)
                                                    else con_priority con),
                                   con_readTimeout := readTimeout s1,
                                   con_writeTimeout := writeTimeout s1,
                                   con_stats := (stats s1 \<noteq> None)\<rparr>
                   in (s1\<lparr>connections := connections s1 @ [con1]\<rparr>,
                       tr @ [SocketAccept, AcceptRequest (con_id con1)], None)))))"


subsection \<open>The expire timer\<close>

text \<open>
  Modelled from the spec: how the reactor fires a timer event (the reactor, Event.h and
  Base.h are not among the sources). A registered event with a delay is due when the
  delay has passed; the reactor then runs its callback. "A non-persistent event is
  automatically deregistered after one firing"; a persistent one stays registered and
  is due again after the same delay. Whether the default flags of \<^verbatim>\<open>Base::newEvent\<close>
  make an event persistent is the parameter \<open>default_persist\<close>.
\<close>

definition persistent :: "bool \<Rightarrow> Event \<Rightarrow> bool" where
  "persistent default_persist e =
     (case ev_flags e of
        None \<Rightarrow> default_persist
      | Some fl \<Rightarrow> List.member fl EVENT_PERSIST)"

definition fired :: "bool \<Rightarrow> Event \<Rightarrow> Event" where
  "fired default_persist e = (if persistent default_persist e then e else del e)"

text \<open>
  The next \<open>n\<close> turns of the expire timer when nothing else happens to the server: the
  times at which \<^verbatim>\<open>expireCB\<close> runs, the first one at \<open>due\<close>, and the server afterwards.
\<close>

fun expire_timer :: "bool \<Rightarrow> nat \<Rightarrow> real \<Rightarrow> HTTP \<Rightarrow> real list \<times> HTTP" where
  "expire_timer default_persist 0 due s = ([], s)"
| "expire_timer default_persist (Suc n) due s =
     (case expireEvent s of
        None \<Rightarrow> ([], s)
      | Some e \<Rightarrow>
          (case ev_delay e of
             None \<Rightarrow> ([], s)
           | Some d \<Rightarrow>
               if \<not> isPending e then ([], s)
               else
                 (case expire_timer default_persist n (due + real d)
                         (fst (expireCB due (s\<lparr>expireEvent := Some (fired default_persist e)\<rparr>))) of
                    (scans, s2) \<Rightarrow> (due # scans, s2))))"

subsection \<open>A bound server\<close>

text \<open>
  Connections come from \<^verbatim>\<open>acceptCB\<close>, which needs the socket, and the socket is set by
  \<^verbatim>\<open>bind\<close> together with the accept event: a server that holds connections has a
  socket, and a server that has a socket has an accept event.
\<close>

definition accept_ready :: "HTTP \<Rightarrow> bool" where
  "accept_ready s =
     ((connections s = [] \<or> socket s \<noteq> None) \<and> (socket s = None \<or> acceptEvent s \<noteq> None))"


section \<open>Option::set\<close>

unbundle bit_operations_syntax

text \<open>
  The members of \<^verbatim>\<open>Option\<close> that \<^verbatim>\<open>set\<close> reads or writes. The flag bits are constants of
  Option.h, which is not among the sources, so they are parameters.
\<close>

record Option_t =
  opt_name :: string
  opt_flags :: "32 word"
  opt_value :: string

record Option_h =
  SET_FLAG :: "32 word"
  COMMAND_LINE_FLAG :: "32 word"

definition isSet :: "Option_h \<Rightarrow> Option_t \<Rightarrow> bool" where
  "isSet h opt = (opt_flags opt AND SET_FLAG h \<noteq> 0)"

text \<open>
  What lies outside \<^verbatim>\<open>set\<close>: whether \<^verbatim>\<open>validate()\<close> returns or throws for an option (it
  parses the value by the option's type and checks the constraint), the action if the
  option has one (it may change the option, and may throw), the text that
  \<^verbatim>\<open>printHelp\<close> writes or what it throws (\<^verbatim>\<open>getTypeString()\<close> throws for a type it
  does not know), and the static \<^verbatim>\<open>Options::warnWhenInvalid\<close>.
\<close>

record Option_env =
  validate :: "Option_t \<Rightarrow> thrown option"
  action :: "(Option_t \<Rightarrow> Option_t \<times> thrown option) option"
  printHelp :: "Option_t \<Rightarrow> thrown + string"
  warnWhenInvalid :: bool

datatype set_call =
    Action Option_t
  | Warning string

text \<open>\<^verbatim>\<open>if (hasAction()) (*action)(*this);\<close>\<close>

definition run_action ::
  "Option_env \<Rightarrow> set_call list \<Rightarrow> Option_t \<Rightarrow> Option_t \<times> set_call list \<times> thrown option" where
  "run_action env tr opt =
     (case action env of
        None \<Rightarrow> (opt, tr, None)
      | Some a \<Rightarrow> (fst (a opt), tr @ [Action opt], snd (a opt)))"

definition errStr :: "Option_t \<Rightarrow> string" where
  "errStr opt = ''Invalid value for option '' @ [CHR 0x27] @ opt_name opt @ [CHR 0x27]"

text \<open>
  \<^verbatim>\<open>void Option::set(const string &value)\<close>: the option afterwards, the calls made, and
  the exception that left the function, if any. The handler catches
  \<^verbatim>\<open>const Exception &\<close> only.
\<close>

definition set_value ::
  "Option_h \<Rightarrow> Option_env \<Rightarrow> string \<Rightarrow> Option_t \<Rightarrow> Option_t \<times> set_call list \<times> thrown option" where
  "set_value h env v opt =
     (if isSet h opt \<and> opt_value opt = v then (opt, [], None)
      else
        (let oldFlags = opt_flags opt;
             oldValue = opt_value opt;
             opt1 = opt\<lparr>opt_flags := (opt_flags opt OR SET_FLAG h) AND NOT (COMMAND_LINE_FLAG h),
                        opt_value := v\<rparr>
         in case validate env opt1 of
              None \<Rightarrow> run_action env [] opt1
            | Some (CbThrown e) \<Rightarrow>
                (let opt2 = opt1\<lparr>opt_flags := oldFlags, opt_value := oldValue\<rparr> in
                 if warnWhenInvalid env then
                   run_action env [Warning (errStr opt2 @ '': '' @ getMessage e)] opt2
                 else
                   (case printHelp env opt2 of
                      Inl x \<Rightarrow> (opt2, [], Some x)
                    | Inr help \<Rightarrow>
                        (opt2, [],
                         Some (THROWC (errStr opt2 @ ''.  Option help:'' @ [CHR 0x0A] @ help)
                                 e))))
            | Some x \<Rightarrow> (opt1, [], Some x)))"

fun is_action :: "set_call \<Rightarrow> bool" where
  "is_action (Action opt) = True"
| "is_action (Warning m) = False"


section \<open>Example inputs\<close>

text \<open>A handler that takes the request, with calls that all return.\<close>

definition handled :: world where
  "handled = \<lparr>handleRequest = Inr True, call_out = (\<lambda>tr c. None), debug3 = False\<rparr>"

text \<open>A handler that throws a domain exception with an HTTP status code, and a request.\<close>

definition teapot :: world where
  "teapot =
     \<lparr>handleRequest = Inl (CbThrown (Exception ''I am a teapot'' 418 None)),
      call_out = (\<lambda>tr c. None), debug3 = False\<rparr>"

definition request7 :: Request where
  "request7 = \<lparr>getID = 7, getClientIP = ''10.0.0.1''\<rparr>"

text \<open>
  A handler that throws something that is no \<^verbatim>\<open>std::exception\<close>, with a request whose
  \<^verbatim>\<open>sendError(HTTP_INTERNAL_SERVER_ERROR)\<close> throws as well (the peer is gone, say).
\<close>

definition reply_fails :: world where
  "reply_fails =
     \<lparr>handleRequest = Inl OtherThrown,
      call_out = (\<lambda>tr c. if c = SendErrorStatus 500 then Some OtherThrown else None),
      debug3 = False\<rparr>"

text \<open>A handler that returns true and whose \<^verbatim>\<open>endRequest\<close> throws the first time.\<close>

definition endRequest_fails :: world where
  "endRequest_fails =
     \<lparr>handleRequest = Inr True,
      call_out = (\<lambda>tr c. if tr = [HandleRequest] \<and> c = EndRequest
                           then Some (StdThrown ''gone'') else None),
      debug3 = False\<rparr>"

text \<open>Two tasks, a pool, and a \<^verbatim>\<open>run()\<close> that throws for the second task.\<close>

definition task1 :: Task where
  "task1 = \<lparr>task_id = 1, task_priority = 0, failed = False, exception = None\<rparr>"

definition task2 :: Task where
  "task2 = \<lparr>task_id = 2, task_priority = 5, failed = False, exception = None\<rparr>"

definition pool0 :: ConcurrentPool where
  "pool0 = \<lparr>pool_size = 2, ready = [], completed = [], activations = 0\<rparr>"

definition throws_on_2 :: "Task \<Rightarrow> thrown option" where
  "throws_on_2 t = (if task_id t = 2 then Some (StdThrown ''boom'') else None)"

text \<open>
  The pool after both tasks ran, callbacks that all throw, and a \<^verbatim>\<open>CATCH_ERROR\<close> that
  catches everything.
\<close>

definition drained_pool :: ConcurrentPool where
  "drained_pool =
     pool0\<lparr>completed :=
       [task2\<lparr>failed := True, exception := Some (CapturedString ''boom'')\<rparr>, task1],
       activations := 2\<rparr>"

definition all_throw :: "task_call list \<Rightarrow> task_call \<Rightarrow> thrown option" where
  "all_throw tr c = Some (StdThrown ''callback failed'')"

definition catch_all :: "thrown \<Rightarrow> bool" where
  "catch_all x = True"

text \<open>
  A server that is not bound, the same server bound, and the bound server with three
  connections that started at 85, 90 and 95 seconds.
\<close>

definition con_at :: "nat \<Rightarrow> real \<Rightarrow> Connection" where
  "con_at i t =
     \<lparr>con_id = i, peer = ''10.0.0.1'', getStartTime = t, con_http = True,
      con_maxHeaderSize = 0, con_maxBodySize = 0, con_priority = None,
      con_readTimeout = 0, con_writeTimeout = 0, con_stats = False\<rparr>"

definition http0 :: HTTP where
  "http0 =
     \<lparr>maxConnections = 2, maxConnectionTTL = 10, priority = 3, connectionBacklog = 128,
      maxHeaderSize = 4096, maxBodySize = 65536, readTimeout = 30, writeTimeout = 30,
      connections = [], expireEvent = None, acceptEvent = None, socket = None,
      boundAddr = [], stats = Some (\<lambda>n. 0)\<rparr>"

definition os_ok :: "IPAddress \<Rightarrow> nat \<Rightarrow> thrown + nat" where
  "os_ok addr backlog = Inr 5"

definition bound_http :: HTTP where
  "bound_http = fst (bind os_ok ''127.0.0.1:80'' http0)"

definition full_http :: HTTP where
  "full_http = bound_http\<lparr>connections := [con_at 1 85, con_at 2 90, con_at 3 95]\<rparr>"

definition evict_none :: "Connection list \<Rightarrow> Connection list \<times> thrown option" where
  "evict_none cs = (cs, None)"

text \<open>
  An option with the set and command line flags, and a validation that rejects the
  value \<open>abc\<close>.
\<close>

definition option_h :: Option_h where
  "option_h = \<lparr>SET_FLAG = 2, COMMAND_LINE_FLAG = 16\<rparr>"

definition port_option :: Option_t where
  "port_option = \<lparr>opt_name = ''port'', opt_flags = 18, opt_value = ''80''\<rparr>"

definition digits_only :: Option_env where
  "digits_only =
     \<lparr>validate = (\<lambda>opt. if opt_value opt = ''abc''
                           then Some (CbThrown (Exception ''Invalid integer'' 0 None))
                           else None),
      action = Some (\<lambda>opt. (opt, None)),
      printHelp = (\<lambda>opt. Inr ''  port <integer>''),
      warnWhenInvalid = False\<rparr>"

text \<open>A validation that rejects the value \<open>abc\<close> with an exception that is no \<^verbatim>\<open>cb::Exception\<close>.\<close>

definition foreign_throw :: Option_env where
  "foreign_throw =
     \<lparr>validate = (\<lambda>opt. if opt_value opt = ''abc''
                           then Some (StdThrown ''bad value'') else None),
      action = Some (\<lambda>opt. (opt, None)),
      printHelp = (\<lambda>opt. Inr ''  port <integer>''),
      warnWhenInvalid = False\<rparr>"


section \<open>HTTP::dispatch: endRequest and the reply to a domain exception\<close>

lemma dispatch_end_count:
  "count_list (fst (dispatch_end w tr)) EndRequest = Suc (count_list tr EndRequest)"
  by (simp add: dispatch_end_def invoke_def split: option.splits)

lemma reply_in_catch_count:
  assumes "call_out w tr c = None" and "c \<noteq> EndRequest"
  shows "count_list (fst (reply_in_catch w tr c)) EndRequest = Suc (count_list tr EndRequest)"
  using assms by (simp add: reply_in_catch_def invoke_def dispatch_end_count)

lemma dispatch_catch_count:
  assumes "\<And>tr c. catch_reply c \<Longrightarrow> call_out w tr c = None"
  shows "count_list (fst (dispatch_catch w req tr x)) EndRequest = Suc (count_list tr EndRequest)"
  by (cases x) (simp_all add: reply_in_catch_count assms request_warning_def)

text \<open>
  C1, as amended. \<^verbatim>\<open>dispatch\<close> calls \<^verbatim>\<open>handler.endRequest(req)\<close> exactly once on every
  path on which the reply made inside a \<^verbatim>\<open>catch\<close> clause returns normally and
  \<^verbatim>\<open>endRequest\<close>, when called after \<^verbatim>\<open>handleRequest\<close> returned true, returns normally:
  when \<^verbatim>\<open>handleRequest\<close> returns true, when it returns false (after the 404 reply, also
  when that reply throws) and when \<^verbatim>\<open>handleRequest\<close> throws anything.
\<close>

theorem dispatch_endRequest_once:
  assumes endRequest_returns:
      "handleRequest w = Inr True \<Longrightarrow> call_out w [HandleRequest] EndRequest = None"
    and catch_reply_returns: "\<And>tr c. catch_reply c \<Longrightarrow> call_out w tr c = None"
  shows "count_list (fst (dispatch w req)) EndRequest = 1"
proof (cases "handleRequest w")
  case (Inl x)
  then show ?thesis
    by (simp add: dispatch_def dispatch_catch_count catch_reply_returns)
next
  case (Inr b)
  show ?thesis
  proof (cases b)
    case True
    with Inr show ?thesis
      by (simp add: dispatch_def invoke_def endRequest_returns)
  next
    case False
    with Inr show ?thesis
      by (simp add: dispatch_def invoke_def dispatch_end_count
          dispatch_catch_count catch_reply_returns split: option.splits)
  qed
qed

theorem dispatch_endRequest_once_witness:
  "dispatch handled request7 = ([HandleRequest, EndRequest], Inr True) \<and>
   count_list (fst (dispatch handled request7)) EndRequest = 1"
  using dispatch_endRequest_once [of handled request7]
  by (simp add: handled_def dispatch_def invoke_def)

text \<open>
  C1 as stated fails: when \<^verbatim>\<open>handleRequest\<close> throws and the reply in the \<^verbatim>\<open>catch\<close> clause
  throws too, the exception leaves \<^verbatim>\<open>dispatch\<close> and \<^verbatim>\<open>endRequest\<close> is not called at all.
\<close>

theorem dispatch_endRequest_counterexample:
  "dispatch reply_fails request7 =
     ([HandleRequest, LogError [LStatusDescription 500], SendErrorStatus 500], Inl OtherThrown) \<and>
   count_list (fst (dispatch reply_fails request7)) EndRequest = 0"
  by (simp add: dispatch_def reply_fails_def reply_in_catch_def invoke_def)

text \<open>
  The other way to miss: \<^verbatim>\<open>endRequest\<close> is called inside the \<^verbatim>\<open>try\<close> block when
  \<^verbatim>\<open>handleRequest\<close> returned true, so if it throws there it is called a second time
  after the \<^verbatim>\<open>catch\<close> clause.
\<close>

lemma dispatch_endRequest_twice:
  "dispatch endRequest_fails request7 =
     ([HandleRequest, EndRequest, LogError [LStr ''gone''], SendErrorStd ''gone'', EndRequest],
      Inr False)"
  by (simp add: dispatch_def endRequest_fails_def reply_in_catch_def invoke_def
      dispatch_end_def)

text \<open>
  C5. If \<^verbatim>\<open>handleRequest\<close> throws a \<^verbatim>\<open>cb::Exception\<close> whose code \<open>c\<close> satisfies
  \<open>400 \<le> c < 600\<close>, then \<^verbatim>\<open>dispatch\<close> logs one warning made of \<open>REQ\<close>, the request ID, the
  client IP and the exception's messages, and replies with \<^verbatim>\<open>req.reply(c)\<close>; it makes no
  \<^verbatim>\<open>sendError\<close> call. The only call after the reply is \<^verbatim>\<open>endRequest\<close>, when the reply
  returned.
\<close>

theorem dispatch_http_code_reply:
  assumes "handleRequest w = Inl (CbThrown e)"
    and "400 \<le> getCode e" and "getCode e < 600"
  shows "fst (dispatch w req) =
      [HandleRequest,
       LogWarning [LStr ''REQ'', LNat (getID req), LChr (CHR '':''),
                   LAddr (getClientIP req), LChr (CHR '':''), LMessages e],
       Reply (getCode e)] @
      (case call_out w [HandleRequest, request_warning req e] (Reply (getCode e)) of
         None \<Rightarrow> [EndRequest]
       | Some x \<Rightarrow> [])"
  using assms
  by (simp add: dispatch_def reply_in_catch_def invoke_def dispatch_end_def
      request_warning_def split: option.splits)

theorem dispatch_http_code_reply_witness:
  "fst (dispatch teapot request7) =
     [HandleRequest,
      LogWarning [LStr ''REQ'', LNat 7, LChr (CHR '':''), LAddr ''10.0.0.1'',
                  LChr (CHR '':''), LMessages (Exception ''I am a teapot'' 418 None)],
      Reply 418, EndRequest]"
  using dispatch_http_code_reply [of teapot "Exception ''I am a teapot'' 418 None" request7]
  by (simp add: teapot_def request7_def request_warning_def)


section \<open>ConcurrentPool: captured errors and completion callbacks\<close>

lemma run_task_returns: "\<exists>task'. run_task run_out task = Inr task'"
  by (simp add: run_task_def split: option.splits thrown.splits)

lemma run_body_returns: "\<exists>p'. run_body run_out task p = Inr p'"
  using run_task_returns [of run_out task] by (auto simp: run_body_def)

lemma run_returns: "\<exists>p'. run run_out obs p = Inr p'"
proof (induction run_out obs p rule: run.induct)
  case (1 run_out atLoop afterWait obs p)
  show ?case
  proof (cases "ready p")
    case Nil
    with 1 show ?thesis by simp
  next
    case (Cons task rest)
    obtain p' where "run_body run_out task (p\<lparr>ready := rest\<rparr>) = Inr p'"
      using run_body_returns by blast
    with 1 Cons show ?thesis by simp
  qed
qed simp_all

lemma set_push: "set (push t q) = insert t (set q)"
  by (induction q) auto

lemma length_push: "length (push t q) = Suc (length q)"
  by (induction q) auto

text \<open>
  C4. When a worker takes a task from the ready queue, whatever \<^verbatim>\<open>run()\<close> throws stays
  inside the loop: a \<^verbatim>\<open>cb::Exception\<close> is stored on the task as it is, another
  \<^verbatim>\<open>std::exception\<close> as its message string, and anything else as the string
  \<open>Unknown exception\<close>, each marking the task failed. In every case the pass leaves the
  pool with the task taken from the ready queue and pushed onto the completed queue
  (which grows by one) and with the event activated once more; the loop then goes on
  with the next pass from that pool, and it never ends with an exception.
\<close>

theorem run_captures_thrown:
  assumes "ready p = task # rest"
  shows "\<exists>task'.
     (case run_out task of
        None \<Rightarrow> task' = task
      | Some (CbThrown e) \<Rightarrow>
          task' = task\<lparr>failed := True, exception := Some (CapturedException e)\<rparr>
      | Some (StdThrown what) \<Rightarrow>
          task' = task\<lparr>failed := True, exception := Some (CapturedString what)\<rparr>
      | Some OtherThrown \<Rightarrow>
          task' = task\<lparr>failed := True,
                        exception := Some (CapturedString ''Unknown exception'')\<rparr>) \<and>
     run run_out [False, False] p =
       Inr (p\<lparr>ready := rest, completed := push task' (completed p),
              activations := activations p + 1\<rparr>) \<and>
     task' \<in> set (push task' (completed p)) \<and>
     length (push task' (completed p)) = length (completed p) + 1 \<and>
     run run_out (False # False # obs) p =
       run run_out obs (p\<lparr>ready := rest, completed := push task' (completed p),
                           activations := activations p + 1\<rparr>) \<and>
     (\<exists>p'. run run_out (False # False # obs) p = Inr p')"
proof -
  have r: "\<exists>p'. run run_out (False # False # obs) p = Inr p'"
    by (rule run_returns)
  show ?thesis
  proof (cases "run_out task")
    case None
    with assms r show ?thesis
      by (simp add: run_body_def run_task_def set_push length_push)
  next
    case (Some x)
    with assms r show ?thesis
      by (cases x)
        (simp_all add: run_body_def run_task_def setException_def set_push length_push)
  qed
qed

theorem run_captures_thrown_witness:
  "run throws_on_2 [False, False, False, False] (submit task2 (submit task1 pool0)) =
     Inr drained_pool"
  using run_captures_thrown [where p = "submit task2 (submit task1 pool0)" and task = task2
      and rest = "[task1]" and run_out = throws_on_2 and obs = "[False, False]"]
  by (simp add: submit_def pool0_def task1_def task2_def throws_on_2_def run_body_def
      run_task_def setException_def drained_pool_def)

lemma try_call_callbacks:
  assumes "is_callback c" and "\<And>x. cb tr c = Some x \<Longrightarrow> caught x"
    and "try_call caught cb tr c = (tr', r)"
  shows "r = None \<and> callbacks tr' = callbacks tr @ [c]"
  using assms
  by (auto simp: try_call_def CATCH_ERROR_def callbacks_def split: option.splits)

lemma complete_loop_callbacks:
  assumes "\<And>tr c x. cb tr c = Some x \<Longrightarrow> caught x"
  shows "complete_loop caught cb tr q = (tr', q', r) \<Longrightarrow>
     r = None \<and> q' = [] \<and> callbacks tr' = callbacks tr @ concat (map due_callbacks q)"
proof (induction q arbitrary: tr)
  case Nil
  then show ?case by simp
next
  case (Cons task q)
  let ?c1 = "if failed task then Error (task_id task) (exception task)
             else Success (task_id task)"
  let ?c2 = "Complete (task_id task)"
  obtain tr1 r1 where 1: "try_call caught cb tr ?c1 = (tr1, r1)"
    by (cases "try_call caught cb tr ?c1")
  have "is_callback ?c1" by simp
  from try_call_callbacks [OF this assms 1]
  have r1: "r1 = None" and t1: "callbacks tr1 = callbacks tr @ [?c1]"
    by simp_all
  obtain tr2 r2 where 2: "try_call caught cb tr1 ?c2 = (tr2, r2)"
    by (cases "try_call caught cb tr1 ?c2")
  have "is_callback ?c2" by simp
  from try_call_callbacks [OF this assms 2]
  have r2: "r2 = None" and t2: "callbacks tr2 = callbacks tr1 @ [?c2]"
    by simp_all
  from Cons.prems 1 2 r1 r2 have "complete_loop caught cb tr2 q = (tr', q', r)"
    by simp
  from Cons.IH [OF this] t1 t2 show ?case
    by (simp add: due_callbacks_def)
qed

text \<open>
  C2. Provided \<^verbatim>\<open>CATCH_ERROR\<close> catches what the callbacks throw (the spec's reading of
  the macro), the callbacks that \<^verbatim>\<open>complete()\<close> makes are, task after task in the
  order of the completed queue, \<^verbatim>\<open>error\<close> with the captured error if the task failed
  and \<^verbatim>\<open>success\<close> otherwise, followed by \<^verbatim>\<open>complete\<close>: each exactly once, whichever
  of them throw. No exception leaves the loop and the queue is drained to the end.
\<close>

theorem complete_fires_due_callbacks:
  assumes "\<And>tr c x. cb tr c = Some x \<Longrightarrow> caught x"
  shows "case complete caught cb p of
      (p', tr, r) \<Rightarrow>
        r = None \<and> completed p' = [] \<and>
        callbacks tr = concat (map due_callbacks (completed p))"
proof -
  obtain tr q r where l: "complete_loop caught cb [] (completed p) = (tr, q, r)"
    by (cases "complete_loop caught cb [] (completed p)")
  from complete_loop_callbacks [OF assms l] l show ?thesis
    by (simp add: complete_def callbacks_def)
qed

theorem complete_fires_due_callbacks_witness:
  "complete catch_all all_throw drained_pool =
     (drained_pool\<lparr>completed := []\<rparr>,
      [Error 2 (Some (CapturedString ''boom'')), LoggedError (StdThrown ''callback failed''),
       Complete 2, LoggedError (StdThrown ''callback failed''),
       Success 1, LoggedError (StdThrown ''callback failed''),
       Complete 1, LoggedError (StdThrown ''callback failed'')],
      None)"
  using complete_fires_due_callbacks [of all_throw catch_all drained_pool]
  by (simp add: complete_def drained_pool_def pool0_def task1_def task2_def all_throw_def
      catch_all_def try_call_def CATCH_ERROR_def)


section \<open>HTTP: connection cap, expiry and configuration\<close>

lemma expire_loop_eq:
  "expire_loop ttl now cs st n =
    (filter (\<lambda>c. \<not> real ttl < now - getStartTime c) cs,
     map_option
       (\<lambda>f. f(''timedout'' :=
              f ''timedout'' + length (filter (\<lambda>c. real ttl < now - getStartTime c) cs))) st,
     n + length (filter (\<lambda>c. real ttl < now - getStartTime c) cs))"
proof (induction cs arbitrary: st n)
  case Nil
  show ?case by (cases st) simp_all
next
  case (Cons c cs)
  show ?case
  proof (cases "real ttl < now - getStartTime c")
    case True
    then show ?thesis
      by (cases st) (simp_all add: Cons.IH event_def fun_upd_def fun_eq_iff)
  next
    case False
    then show ?thesis by (simp add: Cons.IH)
  qed
qed

lemma bound_http_simps:
  "acceptEvent bound_http =
     Some \<lparr>ev_callback = AcceptCB, ev_fd = Some 5,
           ev_flags = Some [EVENT_READ, EVENT_PERSIST, EVENT_NO_SELF_REF],
           ev_priority = Some 2, isPending = True, ev_delay = None\<rparr>"
  "socket bound_http \<noteq> None"
  "maxConnections bound_http = 2"
  "maxConnectionTTL bound_http = 10"
  "connections bound_http = []"
  "stats bound_http = Some (\<lambda>n. 0)"
  by (simp_all add: bound_http_def bind_def http0_def os_ok_def newEvent_def setPriority_def
      add_def above_def)

text \<open>
  The operations keep a server in the states described by \<open>accept_ready\<close>; in such a
  state, removing a connection of a server that holds one finds the accept event set.
\<close>

lemma accept_ready_bind: "accept_ready s \<Longrightarrow> accept_ready (fst (bind os addr s))"
  by (auto simp: accept_ready_def bind_def Let_def split: sum.splits)

lemma accept_ready_acceptCB:
  "accept_ready s \<Longrightarrow> accept_ready (fst (acceptCB evict accepted s))"
  by (auto simp: accept_ready_def acceptCB_def Let_def split: option.splits)

lemma accept_ready_remove: "accept_ready s \<Longrightarrow> accept_ready (fst (remove con s))"
  by (auto simp: accept_ready_def remove_def Let_def split: option.splits)

lemma accept_ready_expireCB: "accept_ready s \<Longrightarrow> accept_ready (fst (expireCB now s))"
  by (auto simp: accept_ready_def expireCB_def expire_loop_eq split: prod.splits)

lemma accept_ready_setMaxConnectionTTL:
  "accept_ready s \<Longrightarrow> accept_ready (fst (setMaxConnectionTTL x s))"
  by (auto simp: accept_ready_def setMaxConnectionTTL_def Let_def split: option.splits)

lemma accept_ready_setEventPriority:
  "accept_ready s \<Longrightarrow> accept_ready (setEventPriority p s)"
  by (auto simp: accept_ready_def setEventPriority_def Let_def)

lemma accept_ready_remove_registers:
  "accept_ready s \<Longrightarrow> connections s \<noteq> [] \<Longrightarrow>
     snd (remove con s) = None \<and>
     (\<exists>e. acceptEvent (fst (remove con s)) = Some e \<and> isPending e)"
  by (auto simp: accept_ready_def remove_def add_def)

text \<open>
  C3. (1) When \<^verbatim>\<open>maxConnections > 0\<close> and \<^verbatim>\<open>acceptCB\<close> runs with at least that many
  connections, the first thing it does is call the handler's \<^verbatim>\<open>evict\<close> hook; if the
  hook returns and the list is still at or above the cap, no socket is accepted, the
  list stays as the hook left it and the accept event is deregistered. (2) Hence
  \<^verbatim>\<open>acceptCB\<close> never takes the number of connections above the cap: with a hook that
  does not add connections, a count within the cap stays within it. (3) \<^verbatim>\<open>remove\<close>
  registers the accept event again (the accept event exists whenever there is a
  connection to remove, see \<open>accept_ready\<close>) and does not add connections.
\<close>

theorem acceptCB_connection_cap:
  "(0 < maxConnections s \<and> maxConnections s \<le> length (connections s) \<longrightarrow>
      (case acceptCB evict accepted s of
         (s', tr, r) \<Rightarrow>
           tr \<noteq> [] \<and> hd tr = Evict \<and>
           (snd (evict (connections s)) = None \<and>
            maxConnections s \<le> length (fst (evict (connections s))) \<longrightarrow>
              SocketAccept \<notin> set tr \<and>
              connections s' = fst (evict (connections s)) \<and>
              (\<forall>e. acceptEvent s = Some e \<longrightarrow>
                 r = None \<and> tr = [Evict, AcceptEventDel] \<and>
                 acceptEvent s' = Some (del e) \<and> \<not> isPending (del e))))) \<and>
   (0 < maxConnections s \<and> length (connections s) \<le> maxConnections s \<and>
    length (fst (evict (connections s))) \<le> length (connections s) \<longrightarrow>
      length (connections (fst (acceptCB evict accepted s))) \<le> maxConnections s) \<and>
   (\<forall>e. acceptEvent s = Some e \<longrightarrow>
      snd (remove con s) = None \<and>
      acceptEvent (fst (remove con s)) = Some (add None e) \<and> isPending (add None e) \<and>
      length (connections (fst (remove con s))) \<le> length (connections s))"
proof (intro conjI impI allI)
  assume cap: "0 < maxConnections s \<and> maxConnections s \<le> length (connections s)"
  then show "case acceptCB evict accepted s of
         (s', tr, r) \<Rightarrow>
           tr \<noteq> [] \<and> hd tr = Evict \<and>
           (snd (evict (connections s)) = None \<and>
            maxConnections s \<le> length (fst (evict (connections s))) \<longrightarrow>
              SocketAccept \<notin> set tr \<and>
              connections s' = fst (evict (connections s)) \<and>
              (\<forall>e. acceptEvent s = Some e \<longrightarrow>
                 r = None \<and> tr = [Evict, AcceptEventDel] \<and>
                 acceptEvent s' = Some (del e) \<and> \<not> isPending (del e)))"
    by (auto simp: acceptCB_def Let_def del_def split: option.splits)
next
  assume "0 < maxConnections s \<and> length (connections s) \<le> maxConnections s \<and>
    length (fst (evict (connections s))) \<le> length (connections s)"
  then show "length (connections (fst (acceptCB evict accepted s))) \<le> maxConnections s"
    by (auto simp: acceptCB_def Let_def split: option.splits)
next
  fix e assume e: "acceptEvent s = Some e"
  then show "snd (remove con s) = None"
    by (simp add: remove_def)
  from e show "acceptEvent (fst (remove con s)) = Some (add None e)"
    by (simp add: remove_def)
  show "isPending (add None e)"
    by (simp add: add_def)
  from e show "length (connections (fst (remove con s))) \<le> length (connections s)"
    by (simp add: remove_def)
qed

theorem acceptCB_connection_cap_witness:
  "acceptCB evict_none (Some (con_at 4 99)) full_http =
     (full_http\<lparr>acceptEvent := map_option del (acceptEvent full_http)\<rparr>,
      [Evict, AcceptEventDel], None) \<and>
   isPending (the (acceptEvent (fst (remove (con_at 1 85)
     (fst (acceptCB evict_none (Some (con_at 4 99)) full_http))))))"
  using acceptCB_connection_cap [of full_http evict_none "Some (con_at 4 99)" "con_at 1 85"]
  by (simp add: full_http_def bound_http_simps evict_none_def acceptCB_def remove_def
      add_def del_def)

text \<open>
  C6. \<^verbatim>\<open>expireCB\<close> keeps, in their order, exactly the connections whose age
  \<open>now - startTime\<close> does not exceed \<^verbatim>\<open>maxConnectionTTL\<close> and removes the others; the count
  it logs is the number removed; a statistics sink, when set, has its \<open>timedout\<close>
  counter raised by that number and is otherwise unchanged; and a connection whose age
  is exactly \<^verbatim>\<open>maxConnectionTTL\<close> is kept. This holds for every value of
  \<^verbatim>\<open>maxConnectionTTL\<close>, so also for the positive ones of the claim.
\<close>

theorem expireCB_removes_expired:
  "connections (fst (expireCB now s)) =
     filter (\<lambda>c. \<not> real (maxConnectionTTL s) < now - getStartTime c) (connections s) \<and>
   snd (expireCB now s) =
     length (filter (\<lambda>c. real (maxConnectionTTL s) < now - getStartTime c) (connections s)) \<and>
   stats (fst (expireCB now s)) =
     map_option (\<lambda>f. f(''timedout'' := f ''timedout'' + snd (expireCB now s))) (stats s) \<and>
   (\<forall>c \<in> set (connections s).
      now - getStartTime c = real (maxConnectionTTL s) \<longrightarrow>
        c \<in> set (connections (fst (expireCB now s))))"
  by (simp add: expireCB_def expire_loop_eq)

theorem expireCB_removes_expired_witness:
  "map con_id (connections (fst (expireCB 100 full_http))) = [2, 3] \<and>
   snd (expireCB 100 full_http) = 1 \<and>
   map_option (\<lambda>f. f ''timedout'') (stats (fst (expireCB 100 full_http))) = Some 1 \<and>
   con_at 2 90 \<in> set (connections (fst (expireCB 100 full_http)))"
  using expireCB_removes_expired [of 100 full_http]
  by (simp add: full_http_def bound_http_simps con_at_def)

lemma expireCB_frame:
  "expireEvent (fst (expireCB now s)) = expireEvent s \<and>
   maxConnectionTTL (fst (expireCB now s)) = maxConnectionTTL s"
  by (simp add: expireCB_def split: prod.splits)

lemma expire_timer_persistent:
  assumes "persistent dp e" and "isPending e" and "ev_delay e = Some d"
  shows "expireEvent s = Some e \<Longrightarrow>
     fst (expire_timer dp n due s) = map (\<lambda>k. due + real d * real k) [0..<n] \<and>
     expireEvent (snd (expire_timer dp n due s)) = Some e \<and>
     maxConnectionTTL (snd (expire_timer dp n due s)) = maxConnectionTTL s"
proof (induction n arbitrary: due s)
  case 0
  then show ?case by simp
next
  case (Suc n)
  let ?s1 = "fst (expireCB due (s\<lparr>expireEvent := Some (fired dp e)\<rparr>))"
  have f: "fired dp e = e"
    using assms by (simp add: fired_def)
  have e1: "expireEvent ?s1 = Some e" and m1: "maxConnectionTTL ?s1 = maxConnectionTTL s"
    by (simp_all add: expireCB_frame f)
  note IH = Suc.IH [OF e1, of "due + real d"]
  have shift: "map (\<lambda>k. due + real d * real k) [0..<Suc n] =
      due # map (\<lambda>k. due + real d + real d * real k) [0..<n]"
    by (simp add: upt_conv_Cons map_Suc_upt [symmetric] algebra_simps del: upt_Suc)
  from Suc.prems assms IH m1 show ?case
    by (simp add: shift case_prod_beta del: upt_Suc)
qed

lemma expire_timer_not_pending:
  "expireEvent s = Some e \<Longrightarrow> \<not> isPending e \<Longrightarrow> fst (expire_timer dp n due s) = []"
  by (cases n) (simp_all split: option.splits)

text \<open>
  An event that is not persistent gives one scan only: the recurrence rests on the
  persistence of the event, which the sources of \<^verbatim>\<open>HTTP\<close> leave to the default flags.
\<close>

lemma expire_timer_one_shot:
  assumes "\<not> persistent dp e" and "isPending e" and "ev_delay e = Some d"
    and "expireEvent s = Some e"
  shows "fst (expire_timer dp (Suc n) due s) = [due]"
proof -
  let ?s1 = "fst (expireCB due (s\<lparr>expireEvent := Some (fired dp e)\<rparr>))"
  have "expireEvent ?s1 = Some (del e)"
    using assms by (simp add: expireCB_frame fired_def)
  then have "fst (expire_timer dp n (due + real d) ?s1) = []"
    by (rule expire_timer_not_pending) (simp add: del_def)
  with assms show ?thesis
    by (simp add: case_prod_beta)
qed

text \<open>
  C7. \<^verbatim>\<open>setMaxConnectionTTL(x)\<close> with \<open>x \<noteq> 0\<close> stores \<open>x\<close>, makes the expire event if
  there is none (an event for \<^verbatim>\<open>expireCB\<close> without descriptor) and otherwise keeps the
  one there is, sets its priority to \<open>priority - 1\<close> if \<open>priority > 0\<close> and to \<open>priority\<close>
  otherwise, and registers it with a delay of 60 seconds. If the event is persistent
  (for a new event: if the default flags of \<^verbatim>\<open>Base::newEvent\<close> make it so), then with
  the call made at time \<open>t0\<close> and nothing else done to the server, the scans run at
  \<open>t0 + 60\<close>, \<open>t0 + 120\<close>, and so on, one every 60 seconds, for any number \<open>n\<close> of them,
  and the TTL and the event are then as the call left them; once the TTL is set back
  to zero there is no further scan.
\<close>

theorem setMaxConnectionTTL_schedules_expiry:
  assumes "x \<noteq> 0"
  shows "\<exists>e. setMaxConnectionTTL x s = (s\<lparr>maxConnectionTTL := x, expireEvent := Some e\<rparr>, None) \<and>
     isPending e \<and> ev_delay e = Some 60 \<and>
     ev_priority e = Some (if 0 < priority s then priority s - 1 else priority s) \<and>
     (case expireEvent s of
        None \<Rightarrow> ev_callback e = ExpireCB \<and> ev_fd e = None \<and> ev_flags e = None
      | Some e0 \<Rightarrow>
          ev_callback e = ev_callback e0 \<and> ev_fd e = ev_fd e0 \<and> ev_flags e = ev_flags e0) \<and>
     (persistent default_persist e \<longrightarrow>
        fst (expire_timer default_persist n (t0 + 60) (fst (setMaxConnectionTTL x s))) =
          map (\<lambda>k. t0 + 60 + 60 * real k) [0..<n] \<and>
        maxConnectionTTL
          (snd (expire_timer default_persist n (t0 + 60) (fst (setMaxConnectionTTL x s)))) = x \<and>
        expireEvent
          (snd (expire_timer default_persist n (t0 + 60) (fst (setMaxConnectionTTL x s)))) =
          Some e \<and>
        fst (expire_timer default_persist m due
               (fst (setMaxConnectionTTL 0
                  (snd (expire_timer default_persist n (t0 + 60)
                          (fst (setMaxConnectionTTL x s))))))) = [])"
proof -
  define e where "e = add (Some 60) (setPriority (above (priority s))
      (case expireEvent s of None \<Rightarrow> newEvent ExpireCB None None | Some e0 \<Rightarrow> e0))"
  let ?s1 = "fst (setMaxConnectionTTL x s)"
  have set: "setMaxConnectionTTL x s = (s\<lparr>maxConnectionTTL := x, expireEvent := Some e\<rparr>, None)"
    using assms by (simp add: setMaxConnectionTTL_def Let_def e_def)
  have pending: "isPending e" and delay: "ev_delay e = Some 60"
    by (simp_all add: e_def add_def)
  have prio: "ev_priority e = Some (if 0 < priority s then priority s - 1 else priority s)"
    by (simp add: e_def add_def setPriority_def above_def)
  have kept: "case expireEvent s of
        None \<Rightarrow> ev_callback e = ExpireCB \<and> ev_fd e = None \<and> ev_flags e = None
      | Some e0 \<Rightarrow>
          ev_callback e = ev_callback e0 \<and> ev_fd e = ev_fd e0 \<and> ev_flags e = ev_flags e0"
    by (simp add: e_def add_def setPriority_def newEvent_def split: option.splits)
  have recurs: "fst (expire_timer default_persist n (t0 + 60) ?s1) =
          map (\<lambda>k. t0 + 60 + 60 * real k) [0..<n] \<and>
        maxConnectionTTL (snd (expire_timer default_persist n (t0 + 60) ?s1)) = x \<and>
        expireEvent (snd (expire_timer default_persist n (t0 + 60) ?s1)) = Some e \<and>
        fst (expire_timer default_persist m due
               (fst (setMaxConnectionTTL 0
                  (snd (expire_timer default_persist n (t0 + 60) ?s1))))) = []"
    if p: "persistent default_persist e"
  proof -
    let ?s2 = "snd (expire_timer default_persist n (t0 + 60) ?s1)"
    have ev: "expireEvent ?s1 = Some e"
      by (simp add: set)
    from expire_timer_persistent [OF p pending delay ev, of n "t0 + 60"]
    have scans: "fst (expire_timer default_persist n (t0 + 60) ?s1) =
          map (\<lambda>k. t0 + 60 + 60 * real k) [0..<n]"
      and ev2: "expireEvent ?s2 = Some e" and ttl: "maxConnectionTTL ?s2 = x"
      by (simp_all add: set)
    have "expireEvent (fst (setMaxConnectionTTL 0 ?s2)) = Some (del e)"
      using ev2 pending by (simp add: setMaxConnectionTTL_def)
    then have "fst (expire_timer default_persist m due (fst (setMaxConnectionTTL 0 ?s2))) = []"
      by (rule expire_timer_not_pending) (simp add: del_def)
    with scans ev2 ttl show ?thesis
      by simp
  qed
  from set pending delay prio kept recurs show ?thesis
    by blast
qed

theorem setMaxConnectionTTL_schedules_expiry_witness:
  "setMaxConnectionTTL 5 http0 =
     (http0\<lparr>maxConnectionTTL := 5,
        expireEvent := Some \<lparr>ev_callback = ExpireCB, ev_fd = None, ev_flags = None,
          ev_priority = Some 2, isPending = True, ev_delay = Some 60\<rparr>\<rparr>, None) \<and>
   fst (expire_timer True 3 60 (fst (setMaxConnectionTTL 5 http0))) = [60, 120, 180] \<and>
   fst (expire_timer True 3 240
          (fst (setMaxConnectionTTL 0
             (snd (expire_timer True 3 60 (fst (setMaxConnectionTTL 5 http0))))))) = []"
proof -
  have five: "(5::nat) \<noteq> 0"
    by simp
  from setMaxConnectionTTL_schedules_expiry [OF five, where s = http0
      and default_persist = True and n = 3 and ?t0.0 = 0 and m = 3 and due = 240]
  obtain e where set: "setMaxConnectionTTL 5 http0 =
        (http0\<lparr>maxConnectionTTL := 5, expireEvent := Some e\<rparr>, None)"
    and new: "ev_flags e = None"
    and recurs: "persistent True e \<longrightarrow>
        fst (expire_timer True 3 (0 + 60) (fst (setMaxConnectionTTL 5 http0))) =
          map (\<lambda>k. 0 + 60 + 60 * real k) [0..<3] \<and>
        maxConnectionTTL
          (snd (expire_timer True 3 (0 + 60) (fst (setMaxConnectionTTL 5 http0)))) = 5 \<and>
        expireEvent
          (snd (expire_timer True 3 (0 + 60) (fst (setMaxConnectionTTL 5 http0)))) = Some e \<and>
        fst (expire_timer True 3 240
               (fst (setMaxConnectionTTL 0
                  (snd (expire_timer True 3 (0 + 60)
                          (fst (setMaxConnectionTTL 5 http0))))))) = []"
    by (auto simp: http0_def)
  have p: "persistent True e"
    by (simp add: persistent_def new)
  have upt3: "[0..<3] = [0, 1, 2]"
    by (simp add: upt_conv_Cons)
  have first: "setMaxConnectionTTL 5 http0 =
     (http0\<lparr>maxConnectionTTL := 5,
        expireEvent := Some \<lparr>ev_callback = ExpireCB, ev_fd = None, ev_flags = None,
          ev_priority = Some 2, isPending = True, ev_delay = Some 60\<rparr>\<rparr>, None)"
    by (simp add: http0_def setMaxConnectionTTL_def add_def setPriority_def newEvent_def
        above_def)
  from recurs p have
    "fst (expire_timer True 3 60 (fst (setMaxConnectionTTL 5 http0))) = [60, 120, 180]"
    and "fst (expire_timer True 3 240
          (fst (setMaxConnectionTTL 0
             (snd (expire_timer True 3 60 (fst (setMaxConnectionTTL 5 http0))))))) = []"
    by (simp_all add: upt3)
  with first show ?thesis
    by simp
qed

text \<open>
  C8. Constructing a \<^verbatim>\<open>ConcurrentPool\<close> while \<^verbatim>\<open>Base::threadsEnabled()\<close> is false throws
  a \<^verbatim>\<open>cb::Exception\<close>; \<^verbatim>\<open>bind\<close> on a server whose socket is set throws the
  \<^verbatim>\<open>cb::Exception\<close> \<open>Already bound\<close> and leaves the server, with its socket, accept event
  and bound address, as it was.
\<close>

theorem configuration_errors_throw:
  "(\<exists>m. ConcurrentPool_new False n = Inl (THROW m)) \<and>
   (socket s \<noteq> None \<longrightarrow> bind os addr s = (s, Some (Thrown (THROW ''Already bound''))))"
  by (auto simp: ConcurrentPool_new_def bind_def)

theorem configuration_errors_throw_witness:
  "bind os_ok ''0.0.0.0:8080'' bound_http =
     (bound_http, Some (Thrown (THROW ''Already bound'')))"
  using configuration_errors_throw [of 0 bound_http os_ok "''0.0.0.0:8080''"]
  by (simp add: bound_http_simps)

text \<open>
  C10 does not hold of the code: the zero branch of \<^verbatim>\<open>setMaxConnectionTTL\<close> evaluates
  \<^verbatim>\<open>expireEvent->isPending()\<close> without asking whether the event is set, so on a server
  whose TTL was never nonzero it dereferences the unset handle. (\<^verbatim>\<open>setEventPriority\<close>
  asks \<^verbatim>\<open>expireEvent.isSet()\<close> first.)
\<close>

theorem setMaxConnectionTTL_zero_unset_event:
  "expireEvent s = None \<Longrightarrow>
     setMaxConnectionTTL 0 s = (s\<lparr>maxConnectionTTL := 0\<rparr>, Some NullDereference)"
  by (simp add: setMaxConnectionTTL_def)

theorem setMaxConnectionTTL_zero_unset_event_witness:
  "snd (setMaxConnectionTTL 0 http0) = Some NullDereference"
  using setMaxConnectionTTL_zero_unset_event [of http0]
  by (simp add: http0_def)


section \<open>Option::set: a rejected value leaves the option as it was\<close>

text \<open>
  C9, as amended. If \<^verbatim>\<open>validate()\<close> throws a \<^verbatim>\<open>cb::Exception\<close> for the new value and
  \<^verbatim>\<open>Options::warnWhenInvalid\<close> is false, then after \<^verbatim>\<open>set\<close> the option's flags and value
  are what they were before the call (the whole option is), the action has not been
  called, and, unless the option already had this value, \<^verbatim>\<open>set\<close> ends with an
  exception: the one that carries the help text and has the validation's exception as
  its cause, or the one that \<^verbatim>\<open>printHelp\<close> threw.
\<close>

theorem set_value_restores_on_invalid:
  assumes "validate env
             (opt\<lparr>opt_flags := (opt_flags opt OR SET_FLAG h) AND NOT (COMMAND_LINE_FLAG h),
                   opt_value := v\<rparr>) = Some (CbThrown e)"
    and "\<not> warnWhenInvalid env"
  shows "case set_value h env v opt of
      (opt', tr, r) \<Rightarrow>
        opt_flags opt' = opt_flags opt \<and> opt_value opt' = opt_value opt \<and> opt' = opt \<and>
        \<not> list_ex is_action tr \<and>
        (\<not> (isSet h opt \<and> opt_value opt = v) \<longrightarrow>
           r = Some (case printHelp env opt of
                       Inl x \<Rightarrow> x
                     | Inr help \<Rightarrow>
                         THROWC (errStr opt @ ''.  Option help:'' @ [CHR 0x0A] @ help) e))"
  using assms by (auto simp: set_value_def Let_def split: sum.splits)

theorem set_value_restores_on_invalid_witness:
  "set_value option_h digits_only ''abc'' port_option =
     (port_option, [],
      Some (THROWC (''Invalid value for option '' @ [CHR 0x27] @ ''port'' @ [CHR 0x27] @
                    ''.  Option help:'' @ [CHR 0x0A] @ ''  port <integer>'')
              (Exception ''Invalid integer'' 0 None)))"
  using set_value_restores_on_invalid [where env = digits_only and opt = port_option
      and h = option_h and v = "''abc''" and e = "Exception ''Invalid integer'' 0 None"]
  by (simp add: set_value_def digits_only_def port_option_def option_h_def isSet_def errStr_def)

text \<open>
  C9 as stated fails: \<^verbatim>\<open>set\<close> catches \<^verbatim>\<open>const Exception &\<close> only. When the validation
  throws anything else, the exception leaves \<^verbatim>\<open>set\<close> with the new flags and the new
  value in place: here the flags go from 18 to 2 and the value from \<open>80\<close> to \<open>abc\<close>.
\<close>

theorem set_value_foreign_exception_counterexample:
  "set_value option_h foreign_throw ''abc'' port_option =
     (\<lparr>opt_name = ''port'', opt_flags = 2, opt_value = ''abc''\<rparr>, [],
      Some (StdThrown ''bad value'')) \<and>
   opt_flags port_option = 18 \<and> opt_value port_option = ''80''"
  by (simp add: set_value_def foreign_throw_def port_option_def option_h_def isSet_def)

end
